theory Spec2Isabelle
  imports Complex_Main
begin

section \<open>Python's Decimal, as the serializers use it\<close>

text \<open>
  \<^verbatim>\<open>api/serializers.py\<close> computes with \<^verbatim>\<open>decimal.Decimal\<close> under the default
  context: precision 28, rounding \<^verbatim>\<open>ROUND_HALF_EVEN\<close>, and the traps
  \<^verbatim>\<open>DivisionByZero\<close> and \<^verbatim>\<open>InvalidOperation\<close> enabled, so both raise.

  A finite Decimal is a signed coefficient and an exponent; its value is
  \<open>coeff * 10 ^ expo\<close>. Left out of the model: the sign of zero, NaN and the
  exponent limits \<^verbatim>\<open>Emax\<close>/\<^verbatim>\<open>Emin\<close> (exponents are unbounded here). Infinity
  appears in the source only as \<^verbatim>\<open>0 ** n\<close> for negative \<open>n\<close>; see \<open>dec_pow\<close>.
\<close>

datatype decimal = Dec (coeff: int) (expo: int)

datatype error = DivisionByZero | InvalidOperation

text \<open>A raised exception ends the computation: \<open>Inl\<close> propagates.\<close>

definition bind_err :: "error + 'a \<Rightarrow> ('a \<Rightarrow> error + 'b) \<Rightarrow> error + 'b" where
  "bind_err r f = (case r of Inl e \<Rightarrow> Inl e | Inr v \<Rightarrow> f v)"

definition val :: "decimal \<Rightarrow> rat" where
  "val d = of_int (coeff d) * 10 powi (expo d)"

definition prec :: nat where
  "prec = 28"

text \<open>
  \<open>ndigits n\<close> is \<^verbatim>\<open>len(str(n))\<close>: the powers of ten are tried in turn, \<open>p\<close> being
  \<open>10 ^ k\<close> throughout.
\<close>

function ndigits_from :: "nat \<Rightarrow> nat \<Rightarrow> nat \<Rightarrow> nat" where
  "ndigits_from k p n = (if n < p \<or> p = 0 then k else ndigits_from (k + 1) (10 * p) n)"
  by pat_completeness auto
termination
  by (relation "measure (\<lambda>(k, p, n). n + 1 - p)") auto

declare ndigits_from.simps [simp del]

definition ndigits :: "nat \<Rightarrow> nat" where
  "ndigits n = ndigits_from 1 10 n"

text \<open>\<open>len(self._int)\<close>: the number of digits of the coefficient.\<close>

definition digits :: "decimal \<Rightarrow> nat" where
  "digits d = ndigits (nat \<bar>coeff d\<bar>)"

text \<open>
  \<open>round_half_even c d\<close> is \<open>c / d\<close> rounded to the nearest integer, a tie going
  to the even neighbour (\<^verbatim>\<open>_round_half_even\<close>); \<open>d\<close> is a positive power of ten.
\<close>

definition round_half_even :: "int \<Rightarrow> int \<Rightarrow> int" where
  "round_half_even c d =
     (let q = c div d; r = c mod d
      in if 2 * r < d then q
         else if d < 2 * r then q + 1
         else if even q then q else q + 1)"

text \<open>
  \<^verbatim>\<open>Decimal._fix\<close>: a coefficient of more than \<open>prec\<close> digits is rounded to
  \<open>prec\<close> digits; when rounding carries into a further digit the last zero is
  dropped.
\<close>

definition dec_fix :: "decimal \<Rightarrow> decimal" where
  "dec_fix d =
     (if digits d \<le> prec then d
      else let k = digits d - prec;
               q = round_half_even (coeff d) (10 ^ k)
           in if \<bar>q\<bar> = 10 ^ prec then Dec (q div 10) (expo d + int k + 1)
              else Dec q (expo d + int k))"

definition dec_neg :: "decimal \<Rightarrow> decimal" where
  "dec_neg d = Dec (- coeff d) (expo d)"

text \<open>Exact sum at the smaller exponent, before the context rounds it.\<close>

definition add_exact :: "decimal \<Rightarrow> decimal \<Rightarrow> decimal" where
  "add_exact a b =
     (let e = min (expo a) (expo b)
      in Dec (coeff a * 10 ^ nat (expo a - e) + coeff b * 10 ^ nat (expo b - e)) e)"

definition dec_add :: "decimal \<Rightarrow> decimal \<Rightarrow> decimal" where
  "dec_add a b = dec_fix (add_exact a b)"

definition dec_sub :: "decimal \<Rightarrow> decimal \<Rightarrow> decimal" where
  "dec_sub a b = dec_add a (dec_neg b)"

definition dec_mul :: "decimal \<Rightarrow> decimal \<Rightarrow> decimal" where
  "dec_mul a b = dec_fix (Dec (coeff a * coeff b) (expo a + expo b))"

text \<open>
  Comparisons are by value, whatever the exponents. Equality with zero, the only
  equality the serializers test, is \<open>coeff d = 0\<close>.
\<close>

definition dec_less :: "decimal \<Rightarrow> decimal \<Rightarrow> bool" where
  "dec_less a b =
     (let e = min (expo a) (expo b)
      in coeff a * 10 ^ nat (expo a - e) < coeff b * 10 ^ nat (expo b - e))"

text \<open>
  The loop of \<^verbatim>\<open>__truediv__\<close> for an exact quotient: drop trailing zeros while
  the exponent is below the ideal one.
\<close>

function strip_zeros :: "int \<Rightarrow> int \<Rightarrow> int \<Rightarrow> int \<times> int" where
  "strip_zeros c e ideal =
     (if e < ideal \<and> c mod 10 = 0 \<and> c \<noteq> 0 then strip_zeros (c div 10) (e + 1) ideal
      else (c, e))"
  by pat_completeness auto
termination
  by (relation "measure (\<lambda>(c, e, ideal). nat (ideal - e))") auto

declare strip_zeros.simps [simp del]

text \<open>
  \<^verbatim>\<open>Decimal.__truediv__\<close> for a nonzero divisor, on operands of any size: the
  quotient is taken to \<open>prec + 1\<close> digits and more, an inexact one gets a sticky
  last digit, and \<open>dec_fix\<close> rounds it.
\<close>

definition div_core :: "int \<Rightarrow> int \<Rightarrow> int \<Rightarrow> int \<Rightarrow> decimal" where
  "div_core c1 e1 c2 e2 =
     (if c1 = 0 then Dec 0 (e1 - e2)
      else
        let sgn_r = (if (c1 < 0) = (c2 < 0) then 1 else - 1);
            a = \<bar>c1\<bar>; b = \<bar>c2\<bar>;
            shift = int (ndigits (nat b)) - int (ndigits (nat a)) + int prec + 1;
            ex = e1 - e2 - shift;
            num = (if 0 \<le> shift then a * 10 ^ nat shift else a);
            den = (if 0 \<le> shift then b else b * 10 ^ nat (- shift));
            q = num div den; r = num mod den
        in if r \<noteq> 0
           then dec_fix (Dec (sgn_r * (if q mod 5 = 0 then q + 1 else q)) ex)
           else (case strip_zeros q ex (e1 - e2) of
                   (q', ex') \<Rightarrow> dec_fix (Dec (sgn_r * q') ex')))"

definition dec_div :: "decimal \<Rightarrow> decimal \<Rightarrow> error + decimal" where
  "dec_div a b =
     (if coeff b = 0
      then (if coeff a = 0 then Inl InvalidOperation else Inl DivisionByZero)
      else Inr (div_core (coeff a) (expo a) (coeff b) (expo b)))"

text \<open>
  \<^verbatim>\<open>x ** n\<close> for an \<^verbatim>\<open>int\<close> \<open>n\<close>: the exact power rounded once to the context
  precision, which is what the decimal module's reference implementation
  returns. \<^verbatim>\<open>0 ** 0\<close> raises. \<^verbatim>\<open>0 ** n\<close> for negative \<open>n\<close> is Infinity in
  Python; in \<open>calculate_emi\<close> that Infinity reaches \<^verbatim>\<open>numerator / denominator\<close>
  as \<^verbatim>\<open>Infinity / Infinity\<close> (or \<^verbatim>\<open>0 * Infinity\<close> before it), which raises
  \<^verbatim>\<open>InvalidOperation\<close>, so the model raises it at once.
\<close>

definition dec_pow :: "decimal \<Rightarrow> int \<Rightarrow> error + decimal" where
  "dec_pow x n =
     (if n = 0 then (if coeff x = 0 then Inl InvalidOperation else Inr (Dec 1 0))
      else if coeff x = 0 then (if 0 < n then Inr (Dec 0 0) else Inl InvalidOperation)
      else if 0 < n then Inr (dec_fix (Dec (coeff x ^ nat n) (expo x * n)))
      else Inr (div_core 1 0 (coeff x ^ nat (- n)) (expo x * (- n))))"

text \<open>
  \<^verbatim>\<open>Decimal._rescale\<close> and \<^verbatim>\<open>Decimal.quantize\<close>: the value at the exponent of
  \<open>q\<close>, rounded half-even; a result of more than \<open>prec\<close> digits raises.
\<close>

definition rescale :: "decimal \<Rightarrow> int \<Rightarrow> decimal" where
  "rescale d ex =
     (if ex \<le> expo d then Dec (coeff d * 10 ^ nat (expo d - ex)) ex
      else Dec (round_half_even (coeff d) (10 ^ nat (ex - expo d))) ex)"

definition quantize :: "decimal \<Rightarrow> decimal \<Rightarrow> error + decimal" where
  "quantize d q =
     (if coeff d = 0 then Inr (Dec 0 (expo q))
      else if int prec < expo d + int (digits d) - expo q then Inl InvalidOperation
      else let ans = rescale d (expo q)
           in if prec < digits ans then Inl InvalidOperation else Inr ans)"

section \<open>The EMI calculator\<close>

text \<open>
  \<^verbatim>\<open>LoanEligibilityCheckSerializer.calculate_emi\<close>. The tenure is a Python
  \<^verbatim>\<open>int\<close>; \<^verbatim>\<open>loan_amount / tenure\<close> and \<^verbatim>\<open>interest_rate / 12\<close> convert it to a
  Decimal of exponent 0.
\<close>

definition calculate_emi :: "decimal \<Rightarrow> decimal \<Rightarrow> int \<Rightarrow> error + decimal" where
  "calculate_emi loan_amount interest_rate tenure =
     (if coeff interest_rate = 0 then dec_div loan_amount (Dec tenure 0)
      else
        bind_err (dec_div interest_rate (Dec 12 0)) (\<lambda>per_month.
        bind_err (dec_div per_month (Dec 100 0)) (\<lambda>monthly_interest_rate.
        bind_err (dec_pow (dec_add (Dec 1 0) monthly_interest_rate) tenure) (\<lambda>pow_factor.
          let numerator = dec_mul (dec_mul loan_amount monthly_interest_rate) pow_factor;
              denominator = dec_sub pow_factor (Dec 1 0)
          in if coeff denominator = 0 then dec_div loan_amount (Dec tenure 0)
             else bind_err (dec_div numerator denominator) (\<lambda>emi.
                    quantize emi (Dec 1 (- 2)))))))"

section \<open>Customers, loans and the queries on them\<close>

text \<open>
  \<^verbatim>\<open>api/models.py\<close>. Only the fields the serializer reads or writes are kept.
  \<^verbatim>\<open>approved_limit\<close> is optional because the serializer tests it against
  \<^verbatim>\<open>None\<close>. A loan refers to its customer by the customer's key.
\<close>

record date =
  year :: int
  month :: int
  day :: int

record customer =
  customer_id :: int
  monthly_salary :: decimal
  approved_limit :: "decimal option"
  current_debt :: decimal

record loan =
  loan_id :: int
  loan_customer :: int
  loan_amount :: decimal
  tenure :: int
  interest_rate :: decimal
  monthly_repayment :: decimal
  emis_paid_on_time :: int
  start_date :: date
  end_date :: date
  loan_status :: string

text \<open>
  \<^verbatim>\<open>aggregate(Sum(...))\<close>: the database's exact sum of a column, \<^verbatim>\<open>None\<close> over
  no rows.
\<close>

definition Sum_int :: "int list \<Rightarrow> int option" where
  "Sum_int xs = (if xs = [] then None else Some (sum_list xs))"

definition Sum_dec :: "decimal list \<Rightarrow> decimal option" where
  "Sum_dec xs = (case xs of [] \<Rightarrow> None | x # rest \<Rightarrow> Some (foldl add_exact x rest))"

text \<open>\<^verbatim>\<open>x and x > 0\<close> on a Decimal: nonzero, and above zero.\<close>

definition truthy_and_positive :: "decimal \<Rightarrow> bool" where
  "truthy_and_positive x \<longleftrightarrow> coeff x \<noteq> 0 \<and> dec_less (Dec 0 0) x"

section \<open>The credit score\<close>

text \<open>
  \<^verbatim>\<open>LoanEligibilityCheckSerializer.calculate_credit_score\<close>, for the customer the
  serializer holds and the rows of the loan table.

  \<^verbatim>\<open>(total_emis_paid / total_tenure) * 100\<close> divides two Python \<^verbatim>\<open>int\<close>s, so it
  is computed in binary floating point. The model takes that computation as the
  parameter \<open>pct\<close>; \<open>on_time_percentage\<close> below is the same quotient without
  rounding. \<open>current_year\<close> is \<^verbatim>\<open>timezone.now().year\<close>. Each \<^verbatim>\<open>credit_score -= d\<close>
  under a condition is written as the subtraction of \<open>d\<close> or of 0.
\<close>

definition on_time_percentage :: "int \<Rightarrow> int \<Rightarrow> rat" where
  "on_time_percentage total_emis_paid total_tenure =
     (of_int total_emis_paid / of_int total_tenure) * 100"

definition calculate_credit_score ::
  "(int \<Rightarrow> int \<Rightarrow> rat) \<Rightarrow> int \<Rightarrow> customer \<Rightarrow> loan list \<Rightarrow> int" where
  "calculate_credit_score pct current_year customer loans =
     (let credit_score = 100;
          all_loans = filter (\<lambda>l. loan_customer l = customer_id customer) loans;
          active_loans = filter (\<lambda>l. loan_status l = ''active'') all_loans;
          total_emis_paid =
            (case Sum_int (map emis_paid_on_time all_loans) of None \<Rightarrow> 0 | Some v \<Rightarrow> v);
          total_tenure = (case Sum_int (map tenure all_loans) of None \<Rightarrow> 0 | Some v \<Rightarrow> v);
          credit_score = credit_score -
            (if 0 < total_tenure
             then (if pct total_emis_paid total_tenure < 50 then 10
                   else if pct total_emis_paid total_tenure < 70 then 5 else 0)
             else 0);
          num_past_loans = int (length all_loans);
          credit_score = credit_score -
            (if 5 < num_past_loans then 10 else if 2 < num_past_loans then 5 else 0);
          loans_current_year =
            int (length (filter (\<lambda>l. year (start_date l) = current_year) all_loans));
          credit_score = credit_score - (if 2 < loans_current_year then 8 else 0);
          total_loan_amount_approved =
            (case Sum_dec (map loan_amount all_loans) of None \<Rightarrow> Dec 0 (- 2) | Some v \<Rightarrow> v);
          credit_score = credit_score -
            (if (case approved_limit customer of None \<Rightarrow> False
                 | Some limit \<Rightarrow> truthy_and_positive limit
                     \<and> dec_less (dec_mul limit (Dec 15 (- 1))) total_loan_amount_approved)
             then 15 else 0);
          total_current_loan_amount =
            (case Sum_dec (map loan_amount active_loans) of None \<Rightarrow> Dec 0 (- 2) | Some v \<Rightarrow> v);
          credit_score =
            (if (case approved_limit customer of None \<Rightarrow> False
                 | Some limit \<Rightarrow> truthy_and_positive limit
                     \<and> dec_less limit total_current_loan_amount)
             then 0 else credit_score)
      in max 0 credit_score)"

section \<open>The eligibility decision\<close>

record eligibility =
  e_customer_id :: int
  approval :: bool
  e_interest_rate :: decimal
  corrected_interest_rate :: decimal
  e_tenure :: int
  monthly_installment :: decimal

text \<open>
  \<^verbatim>\<open>get_eligibility_result\<close>, in the order of its lines. The sum of the
  instalments of the customer's active loans (lines 141 and 142):
\<close>

definition total_current_emis :: "customer \<Rightarrow> loan list \<Rightarrow> decimal" where
  "total_current_emis customer loans =
     (case Sum_dec (map monthly_repayment
             (filter (\<lambda>l. loan_customer l = customer_id customer
                          \<and> loan_status l = ''active'') loans)) of
        None \<Rightarrow> Dec 0 (- 2) | Some v \<Rightarrow> v)"

text \<open>
  The condition of line 144. The divisor is the literal \<^verbatim>\<open>Decimal('2')\<close>, so the
  division cannot raise and is \<open>div_core\<close> itself.
\<close>

definition emi_gate :: "customer \<Rightarrow> loan list \<Rightarrow> bool" where
  "emi_gate customer loans \<longleftrightarrow>
     truthy_and_positive (monthly_salary customer)
     \<and> dec_less (div_core (coeff (monthly_salary customer)) (expo (monthly_salary customer)) 2 0)
           (total_current_emis customer loans)"

text \<open>Lines 155 to 166: the approval and the corrected rate of the score's tier.\<close>

definition score_tier :: "int \<Rightarrow> decimal \<Rightarrow> bool \<times> decimal" where
  "score_tier credit_score requested_interest_rate =
     (if 50 < credit_score then (True, requested_interest_rate)
      else if 30 < credit_score \<and> credit_score \<le> 50
      then (True, if dec_less requested_interest_rate (Dec 1200 (- 2))
                  then Dec 1200 (- 2) else requested_interest_rate)
      else if 10 < credit_score \<and> credit_score \<le> 30
      then (True, if dec_less requested_interest_rate (Dec 1600 (- 2))
                  then Dec 1600 (- 2) else requested_interest_rate)
      else (False, requested_interest_rate))"

text \<open>
  Lines 169 to 181, entered with \<^verbatim>\<open>approval\<close> true: the approval and the
  instalment after the limit test.
\<close>

definition limit_gate :: "customer \<Rightarrow> decimal \<Rightarrow> decimal \<Rightarrow> int \<Rightarrow> error + bool \<times> decimal" where
  "limit_gate customer requested_loan_amount corrected_interest_rate' requested_tenure =
     (if approved_limit customer = None \<or> coeff (the (approved_limit customer)) = 0
      then (if dec_less (Dec 0 (- 2)) requested_loan_amount
            then Inr (False, Dec 0 (- 2)) else Inr (True, Dec 0 (- 2)))
      else if dec_less (the (approved_limit customer)) requested_loan_amount
      then Inr (False, Dec 0 (- 2))
      else bind_err (calculate_emi requested_loan_amount corrected_interest_rate'
                       requested_tenure)
             (\<lambda>emi. Inr (True, emi)))"

text \<open>
  The whole of the function after its second line, for a given score:
  \<^verbatim>\<open>get_eligibility_result\<close> computes the score first and uses it only in the
  tier test.
\<close>

definition eligibility_decision ::
  "int \<Rightarrow> customer \<Rightarrow> loan list \<Rightarrow> decimal \<Rightarrow> decimal \<Rightarrow> int \<Rightarrow> error + eligibility" where
  "eligibility_decision credit_score customer loans requested_loan_amount
       requested_interest_rate requested_tenure =
     (if emi_gate customer loans
      then Inr \<lparr>e_customer_id = customer_id customer, approval = False,
                e_interest_rate = requested_interest_rate,
                corrected_interest_rate = requested_interest_rate,
                e_tenure = requested_tenure, monthly_installment = Dec 0 (- 2)\<rparr>
      else
        bind_err
          (if fst (score_tier credit_score requested_interest_rate)
           then limit_gate customer requested_loan_amount
                  (snd (score_tier credit_score requested_interest_rate)) requested_tenure
           else Inr (False, Dec 0 (- 2)))
          (\<lambda>(approval', installment).
             Inr \<lparr>e_customer_id = customer_id customer, approval = approval',
                  e_interest_rate = requested_interest_rate,
                  corrected_interest_rate =
                    snd (score_tier credit_score requested_interest_rate),
                  e_tenure = requested_tenure, monthly_installment = installment\<rparr>))"

definition get_eligibility_result ::
  "(int \<Rightarrow> int \<Rightarrow> rat) \<Rightarrow> date \<Rightarrow> customer \<Rightarrow> loan list \<Rightarrow> decimal \<Rightarrow> decimal \<Rightarrow> int
     \<Rightarrow> error + eligibility" where
  "get_eligibility_result pct today customer loans requested_loan_amount
       requested_interest_rate requested_tenure =
     eligibility_decision (calculate_credit_score pct (year today) customer loans)
       customer loans requested_loan_amount requested_interest_rate requested_tenure"

section \<open>Loan issuance\<close>

text \<open>
  \<^verbatim>\<open>start_date + relativedelta(months=tenure)\<close>: the month moves by \<open>tenure\<close>, the
  day is kept unless the target month is shorter. Python's limit on the year of a
  date (1 to 9999) is not modelled.
\<close>

definition is_leap :: "int \<Rightarrow> bool" where
  "is_leap y \<longleftrightarrow> y mod 4 = 0 \<and> (y mod 100 \<noteq> 0 \<or> y mod 400 = 0)"

definition days_in_month :: "int \<Rightarrow> int \<Rightarrow> int" where
  "days_in_month y m =
     (if m = 2 then (if is_leap y then 29 else 28)
      else if m = 4 \<or> m = 6 \<or> m = 9 \<or> m = 11 then 30 else 31)"

definition add_months :: "date \<Rightarrow> int \<Rightarrow> date" where
  "add_months d n =
     (let t = year d * 12 + (month d - 1) + n;
          y = t div 12;
          m = t mod 12 + 1
      in \<lparr>year = y, month = m, day = min (day d) (days_in_month y m)\<rparr>)"

record loan_response =
  r_loan_id :: "int option"
  r_customer_id :: int
  loan_approved :: bool
  message :: string
  r_monthly_installment :: decimal

text \<open>
  \<^verbatim>\<open>LoanEligibilityCheckSerializer.create\<close>. The state is the customer object the
  serializer holds and the loan table; \<open>new_id\<close> is the key the database gives
  the new row, \<open>today\<close> is \<^verbatim>\<open>timezone.now().date()\<close>. A row is modelled with the
  values passed to \<^verbatim>\<open>Loan.objects.create\<close>.
\<close>

definition create ::
  "(int \<Rightarrow> int \<Rightarrow> rat) \<Rightarrow> date \<Rightarrow> int \<Rightarrow> customer \<Rightarrow> loan list \<Rightarrow> decimal \<Rightarrow> decimal \<Rightarrow> int
     \<Rightarrow> error + (loan_response \<times> customer \<times> loan list)" where
  "create pct today new_id customer loans loan_amount' interest_rate' tenure' =
     bind_err (get_eligibility_result pct today customer loans loan_amount' interest_rate'
                 tenure') (\<lambda>eligibility_result.
     if approval eligibility_result
     then
       let start = today;
           end' = add_months start tenure'
       in bind_err (calculate_emi loan_amount'
                      (corrected_interest_rate eligibility_result) tenure')
            (\<lambda>installment.
               Inr (\<lparr>r_loan_id = Some new_id, r_customer_id = customer_id customer,
                      loan_approved = True, message = ''Loan approved successfully'',
                      r_monthly_installment = installment\<rparr>,
                    customer\<lparr>current_debt := dec_add (current_debt customer) loan_amount'\<rparr>,
                    loans @ [\<lparr>loan_id = new_id, loan_customer = customer_id customer,
                              loan_amount = loan_amount', tenure = tenure',
                              interest_rate = corrected_interest_rate eligibility_result,
                              monthly_repayment = installment, emis_paid_on_time = 0,
                              start_date = start, end_date = end',
                              loan_status = ''active''\<rparr>]))
     else Inr (\<lparr>r_loan_id = None, r_customer_id = customer_id customer,
                 loan_approved = False,
                 message = ''Loan not approved based on eligibility criteria'',
                 r_monthly_installment = Dec 0 (- 2)\<rparr>,
               customer, loans))"

section \<open>Facts about the decimal model\<close>

subsection \<open>The number of digits\<close>

lemma ndigits_from_spec:
  "p = 10 ^ k \<Longrightarrow> 1 \<le> k \<Longrightarrow> (k = 1 \<or> 10 ^ (k - 1) \<le> n) \<Longrightarrow>
     k \<le> ndigits_from k p n \<and> n < 10 ^ ndigits_from k p n \<and>
     (ndigits_from k p n = 1 \<or> 10 ^ (ndigits_from k p n - 1) \<le> n)"
proof (induction k p n rule: ndigits_from.induct)
  case (1 k p n)
  show ?case
  proof (cases "n < p")
    case True
    then have "ndigits_from k p n = k" by (subst ndigits_from.simps) simp
    with True 1 show ?thesis by auto
  next
    case False
    have p0: "p \<noteq> 0" using 1(2) by simp
    have eq: "ndigits_from k p n = ndigits_from (k + 1) (10 * p) n"
      using False p0 by (subst ndigits_from.simps) simp
    have "k + 1 \<le> ndigits_from (k + 1) (10 * p) n \<and> n < 10 ^ ndigits_from (k + 1) (10 * p) n \<and>
     (ndigits_from (k + 1) (10 * p) n = 1 \<or> 10 ^ (ndigits_from (k + 1) (10 * p) n - 1) \<le> n)"
      using False p0 1(2) by (intro 1(1)) auto
    then show ?thesis unfolding eq by auto
  qed
qed

lemma ndigits_spec:
  "1 \<le> ndigits n \<and> n < 10 ^ ndigits n \<and> (ndigits n = 1 \<or> 10 ^ (ndigits n - 1) \<le> n)"
  unfolding ndigits_def using ndigits_from_spec [of 10 1 n] by simp

lemma ndigits_le_iff: "0 < k \<Longrightarrow> ndigits n \<le> k \<longleftrightarrow> n < 10 ^ k"
proof
  assume k: "0 < k" and le: "ndigits n \<le> k"
  have "n < 10 ^ ndigits n" using ndigits_spec by blast
  also have "(10::nat) ^ ndigits n \<le> 10 ^ k" using le by (simp add: power_increasing)
  finally show "n < 10 ^ k" .
next
  assume k: "0 < k" and lt: "n < 10 ^ k"
  show "ndigits n \<le> k"
  proof (rule ccontr)
    assume "\<not> ndigits n \<le> k"
    then have gt: "k < ndigits n" by simp
    then have "ndigits n \<noteq> 1" using k by simp
    then have a: "10 ^ (ndigits n - 1) \<le> n" using ndigits_spec by blast
    have b: "(10::nat) ^ k \<le> 10 ^ (ndigits n - 1)"
      by (rule power_increasing) (use gt in simp_all)
    from b a have "10 ^ k \<le> n" by (rule le_trans)
    with lt show False by linarith
  qed
qed

lemma ndigits_eqI: "10 ^ k \<le> n \<Longrightarrow> n < 10 ^ Suc k \<Longrightarrow> ndigits n = Suc k"
proof -
  assume lo: "10 ^ k \<le> n" and hi: "n < 10 ^ Suc k"
  have le: "ndigits n \<le> Suc k" using hi ndigits_le_iff [of "Suc k" n] by simp
  have "\<not> ndigits n \<le> k"
  proof (cases "k = 0")
    case True
    then show ?thesis using ndigits_spec [of n] by simp
  next
    case False
    then show ?thesis using lo ndigits_le_iff [of k n] by simp
  qed
  with le show ?thesis by simp
qed

lemma ndigits_small: "n < 10 \<Longrightarrow> ndigits n = 1"
  using ndigits_le_iff [of 1 n] ndigits_spec [of n] by simp

subsection \<open>Values, comparison and sums\<close>

lemma val_Dec [simp]: "val (Dec c e) = of_int c * 10 powi e"
  by (simp add: val_def)

lemma scale_val:
  "e \<le> ea \<Longrightarrow> (of_int (c * 10 ^ nat (ea - e)) :: rat) * 10 powi e = of_int c * 10 powi ea"
proof -
  assume le: "e \<le> ea"
  have "(10::rat) ^ nat (ea - e) = 10 powi (ea - e)"
    using le by (simp add: power_int_def)
  moreover have "(10::rat) powi (ea - e) * 10 powi e = 10 powi ea"
    using power_int_add [of "10::rat" "ea - e" e] by simp
  ultimately show ?thesis by (simp add: mult.assoc)
qed

lemma pow10_pos [simp]: "0 < (10::rat) powi e"
  by (simp add: zero_less_power_int)

lemma dec_less_iff: "dec_less a b \<longleftrightarrow> val a < val b"
proof -
  define e where "e = min (expo a) (expo b)"
  have va: "val a = of_int (coeff a * 10 ^ nat (expo a - e)) * 10 powi e"
    unfolding val_def by (rule scale_val [symmetric]) (simp add: e_def)
  have vb: "val b = of_int (coeff b * 10 ^ nat (expo b - e)) * 10 powi e"
    unfolding val_def by (rule scale_val [symmetric]) (simp add: e_def)
  have "dec_less a b \<longleftrightarrow> coeff a * 10 ^ nat (expo a - e) < coeff b * 10 ^ nat (expo b - e)"
    by (simp add: dec_less_def e_def Let_def)
  also have "\<dots> \<longleftrightarrow> (of_int (coeff a * 10 ^ nat (expo a - e)) :: rat) < of_int (coeff b * 10 ^ nat (expo b - e))"
    by (simp only: of_int_less_iff)
  also have "\<dots> \<longleftrightarrow> val a < val b"
    unfolding va vb by (simp only: mult_less_cancel_right_pos [OF pow10_pos])
  finally show ?thesis .
qed

lemma val_add_exact: "val (add_exact a b) = val a + val b"
proof -
  define e where "e = min (expo a) (expo b)"
  have va: "val a = of_int (coeff a * 10 ^ nat (expo a - e)) * 10 powi e"
    unfolding val_def by (rule scale_val [symmetric]) (simp add: e_def)
  have vb: "val b = of_int (coeff b * 10 ^ nat (expo b - e)) * 10 powi e"
    unfolding val_def by (rule scale_val [symmetric]) (simp add: e_def)
  have "val (add_exact a b) =
      of_int (coeff a * 10 ^ nat (expo a - e) + coeff b * 10 ^ nat (expo b - e)) * 10 powi e"
    by (simp add: add_exact_def e_def Let_def)
  also have "\<dots> = val a + val b"
    unfolding va vb by (simp only: of_int_add distrib_right)
  finally show ?thesis .
qed

lemma val_foldl_add_exact: "val (foldl add_exact x xs) = val x + sum_list (map val xs)"
  by (induction xs arbitrary: x) (simp_all add: val_add_exact)

lemma val_Sum_dec:
  "val (case Sum_dec xs of None \<Rightarrow> Dec 0 (- 2) | Some v \<Rightarrow> v) = sum_list (map val xs)"
  by (cases xs) (simp_all add: Sum_dec_def val_foldl_add_exact)

lemma truthy_and_positive_iff: "truthy_and_positive x \<longleftrightarrow> 0 < val x"
proof -
  have "dec_less (Dec 0 0) x \<longleftrightarrow> 0 < val x" by (simp add: dec_less_iff)
  moreover have "0 < val x \<Longrightarrow> coeff x \<noteq> 0" by (auto simp: val_def)
  ultimately show ?thesis by (auto simp: truthy_and_positive_def)
qed


lemma round_half_even_nonneg: "0 \<le> c \<Longrightarrow> 0 < d \<Longrightarrow> 0 \<le> round_half_even c d"
  by (auto simp: round_half_even_def Let_def pos_imp_zdiv_nonneg_iff intro: add_nonneg_nonneg)

lemma dec_fix_nonneg: "0 \<le> coeff d \<Longrightarrow> 0 \<le> coeff (dec_fix d)"
  by (auto simp: dec_fix_def Let_def pos_imp_zdiv_nonneg_iff round_half_even_nonneg)

lemma pow10_not_le [simp]: "\<not> (10::rat) powi e \<le> 0"
  using pow10_pos [of e] by (simp only: not_le)

lemma val_nonneg_iff: "0 \<le> val d \<longleftrightarrow> 0 \<le> coeff d"
  by (auto simp: val_def zero_le_mult_iff)

lemma dec_mul_nonneg: "0 \<le> val a \<Longrightarrow> 0 \<le> val b \<Longrightarrow> 0 \<le> val (dec_mul a b)"
  unfolding val_nonneg_iff dec_mul_def by (rule dec_fix_nonneg) simp

section \<open>The credit score: range and override\<close>

text \<open>
  Rules 1 to 4 deduct at most 10 + 10 + 8 + 15, so a score that is not forced to 0
  is at least 57.
\<close>

lemma score_range:
  "calculate_credit_score pct yr c loans = 0
   \<or> (57 \<le> calculate_credit_score pct yr c loans \<and> calculate_credit_score pct yr c loans \<le> 100)"
  unfolding calculate_credit_score_def Let_def
  by simp

text \<open>
  Claim C6. For every customer and loan table the score is an integer between 0
  and 100, and it is exactly 100 when the customer has no loans at all. This holds
  whatever the floating-point quotient \<open>pct\<close> returns.
\<close>

theorem score_in_0_100:
  "0 \<le> calculate_credit_score pct yr c loans \<and> calculate_credit_score pct yr c loans \<le> 100
   \<and> ((\<forall>l \<in> set loans. loan_customer l \<noteq> customer_id c)
        \<longrightarrow> calculate_credit_score pct yr c loans = 100)"
proof -
  have r: "0 \<le> calculate_credit_score pct yr c loans \<and> calculate_credit_score pct yr c loans \<le> 100"
    using score_range [of pct yr c loans] by linarith
  have "calculate_credit_score pct yr c loans = 100"
    if "\<forall>l \<in> set loans. loan_customer l \<noteq> customer_id c"
  proof -
    have e: "filter (\<lambda>l. loan_customer l = customer_id c) loans = []"
      using that by (simp add: filter_empty_conv)
    have n: "\<not> dec_less (dec_mul limit (Dec 15 (- 1))) (Dec 0 (- 2))"
      if "truthy_and_positive limit" for limit
    proof -
      have "0 \<le> val (dec_mul limit (Dec 15 (- 1)))"
        using that by (intro dec_mul_nonneg) (simp_all add: truthy_and_positive_iff)
      then show ?thesis by (simp add: dec_less_iff)
    qed
    have m: "\<not> dec_less limit (Dec 0 (- 2))" if "truthy_and_positive limit" for limit
      using that by (simp add: dec_less_iff truthy_and_positive_iff)
    show ?thesis
      unfolding calculate_credit_score_def Let_def e
      using n m by (simp add: Sum_int_def Sum_dec_def split: option.split)
  qed
  with r show ?thesis by blast
qed

text \<open>
  Claim C4. When the customer's approved limit is positive and the loan amounts of
  the customer's active loans sum to strictly more than it, the score is exactly
  0, whatever rules 1 to 4 deducted.
\<close>

theorem score_zero_when_active_loans_exceed_limit:
  assumes "approved_limit c = Some limit" and "0 < val limit"
    and "val limit < sum_list (map (\<lambda>l. val (loan_amount l))
           (filter (\<lambda>l. loan_customer l = customer_id c \<and> loan_status l = ''active'') loans))"
  shows "calculate_credit_score pct yr c loans = 0"
proof -
  let ?active = "filter (\<lambda>l. loan_status l = ''active'')
                   (filter (\<lambda>l. loan_customer l = customer_id c) loans)"
  have "sum_list (map val (map loan_amount ?active))
      = sum_list (map (\<lambda>l. val (loan_amount l))
           (filter (\<lambda>l. loan_customer l = customer_id c \<and> loan_status l = ''active'') loans))"
    by (simp add: comp_def conj_commute)
  then have "dec_less limit (case Sum_dec (map loan_amount ?active) of
                None \<Rightarrow> Dec 0 (- 2) | Some v \<Rightarrow> v)"
    using assms(3) by (simp only: dec_less_iff val_Sum_dec)
  moreover have "truthy_and_positive limit"
    using assms(2) by (simp add: truthy_and_positive_iff)
  ultimately show ?thesis
    unfolding calculate_credit_score_def Let_def using assms(1) by simp
qed


theorem score_in_0_100_witness:
  "set ([] :: loan list) = {}
   \<and> calculate_credit_score on_time_percentage 2026
        \<lparr>customer_id = 1, monthly_salary = Dec 5000000 (- 2),
         approved_limit = Some (Dec 180000000 (- 2)), current_debt = Dec 0 (- 2)\<rparr> [] = 100"
  using score_in_0_100 [of on_time_percentage 2026
      "\<lparr>customer_id = 1, monthly_salary = Dec 5000000 (- 2),
         approved_limit = Some (Dec 180000000 (- 2)), current_debt = Dec 0 (- 2)\<rparr>" "[]"]
  by simp

theorem score_zero_when_active_loans_exceed_limit_witness:
  "approved_limit \<lparr>customer_id = 1, monthly_salary = Dec 5000000 (- 2),
         approved_limit = Some (Dec 100000 (- 2)), current_debt = Dec 200000 (- 2)\<rparr>
     = Some (Dec 100000 (- 2))
   \<and> 0 < val (Dec 100000 (- 2))
   \<and> val (Dec 100000 (- 2)) < sum_list (map (\<lambda>l. val (loan_amount l))
        (filter (\<lambda>l. loan_customer l = 1 \<and> loan_status l = ''active'')
           [\<lparr>loan_id = 7, loan_customer = 1, loan_amount = Dec 200000 (- 2), tenure = 12,
             interest_rate = Dec 1000 (- 2), monthly_repayment = Dec 17583 (- 2),
             emis_paid_on_time = 12, start_date = \<lparr>year = 2020, month = 1, day = 15\<rparr>,
             end_date = \<lparr>year = 2021, month = 1, day = 15\<rparr>, loan_status = ''active''\<rparr>]))
   \<and> calculate_credit_score on_time_percentage 2026
        \<lparr>customer_id = 1, monthly_salary = Dec 5000000 (- 2),
         approved_limit = Some (Dec 100000 (- 2)), current_debt = Dec 200000 (- 2)\<rparr>
        [\<lparr>loan_id = 7, loan_customer = 1, loan_amount = Dec 200000 (- 2), tenure = 12,
          interest_rate = Dec 1000 (- 2), monthly_repayment = Dec 17583 (- 2),
          emis_paid_on_time = 12, start_date = \<lparr>year = 2020, month = 1, day = 15\<rparr>,
          end_date = \<lparr>year = 2021, month = 1, day = 15\<rparr>, loan_status = ''active''\<rparr>] = 0"
  using score_zero_when_active_loans_exceed_limit [of
      "\<lparr>customer_id = 1, monthly_salary = Dec 5000000 (- 2),
         approved_limit = Some (Dec 100000 (- 2)), current_debt = Dec 200000 (- 2)\<rparr>"
      "Dec 100000 (- 2)"
      "[\<lparr>loan_id = 7, loan_customer = 1, loan_amount = Dec 200000 (- 2), tenure = 12,
          interest_rate = Dec 1000 (- 2), monthly_repayment = Dec 17583 (- 2),
          emis_paid_on_time = 12, start_date = \<lparr>year = 2020, month = 1, day = 15\<rparr>,
          end_date = \<lparr>year = 2021, month = 1, day = 15\<rparr>, loan_status = ''active''\<rparr>]"
      on_time_percentage 2026]
  by simp

end
